theory Spec2Isabelle
  imports Main "HOL-Library.AList"
begin

section \<open>JavaScript values\<close>

text \<open>
  The client stores and patches JSON data. A value is a JSON tree, or \<open>undefined\<close>.
  \<^item> Numbers are the integers and \<open>NaN\<close>: the doubles that an integer below \<open>2^53\<close>
    in magnitude denotes exactly, where \<open>+\<close> and \<open>-\<close> are exact, and the \<open>NaN\<close> that a
    failed coercion yields. \<open>-0\<close> is \<open>0\<close>: no operation of the client tells them apart.
  \<^item> A string is a list of code units below 256.
  \<^item> An object is the list of its own enumerable properties, in the order
    \<open>Object.entries\<close> yields them, with distinct names. Its prototype is
    \<open>Object.prototype\<close>. No function is a value.
  \<^item> Values are trees: two entries of a patch share no mutable array or object.
\<close>

datatype jsnum = Fin int | NaN

datatype jsval =
    JUndefined
  | JNull
  | JBool bool
  | JNum jsnum
  | JStr string
  | JArr "jsval list"
  | JObj "(string \<times> jsval) list"

datatype axios_error = AxiosError (response_status: "nat option")

datatype error =
    Key_missing
  | Key_not_string string
  | Prefix_not_string string
  | TypeError
  | Axios axios_error
  | Axios_response nat

text \<open>
  A statement of the callbacks either completes, throws, or leaves the part of JavaScript
  that is modelled here (\<open>Unmodelled\<close>): then nothing is said about the run.
\<close>

datatype 'a step = Ok 'a | Throw error | Unmodelled

definition bind_step :: "'a step \<Rightarrow> ('a \<Rightarrow> 'b step) \<Rightarrow> 'b step" where
  "bind_step m f = (case m of Ok a \<Rightarrow> f a | Throw e \<Rightarrow> Throw e | Unmodelled \<Rightarrow> Unmodelled)"

fun typeof :: "jsval \<Rightarrow> string" where
  "typeof JUndefined = ''undefined''"
| "typeof JNull = ''object''"
| "typeof (JBool _) = ''boolean''"
| "typeof (JNum _) = ''number''"
| "typeof (JStr _) = ''string''"
| "typeof (JArr _) = ''object''"
| "typeof (JObj _) = ''object''"

text \<open>\<open>!v\<close>\<close>

fun falsy :: "jsval \<Rightarrow> bool" where
  "falsy JUndefined = True"
| "falsy JNull = True"
| "falsy (JBool b) = (\<not> b)"
| "falsy (JNum n) = (n = Fin 0 \<or> n = NaN)"
| "falsy (JStr s) = (s = [])"
| "falsy (JArr _) = False"
| "falsy (JObj _) = False"

subsection \<open>Numbers\<close>

fun num_add :: "jsnum \<Rightarrow> jsnum \<Rightarrow> jsnum" where
  "num_add (Fin a) (Fin b) = Fin (a + b)"
| "num_add _ _ = NaN"

fun num_sub :: "jsnum \<Rightarrow> jsnum \<Rightarrow> jsnum" where
  "num_sub (Fin a) (Fin b) = Fin (a - b)"
| "num_sub _ _ = NaN"

text \<open>\<open>Math.abs(y) * -1\<close>, on a number\<close>

fun neg_abs :: "jsnum \<Rightarrow> jsnum" where
  "neg_abs (Fin a) = Fin (- \<bar>a\<bar>)"
| "neg_abs NaN = NaN"

fun digit_char :: "nat \<Rightarrow> char" where
  "digit_char d = ''0123456789'' ! d"

fun show_nat :: "nat \<Rightarrow> string" where
  "show_nat n = (if n < 10 then [digit_char n] else show_nat (n div 10) @ [digit_char (n mod 10)])"

declare show_nat.simps [simp del]

text \<open>\<open>Number::toString\<close>, decimal below \<open>10^21\<close>\<close>

fun number_to_string :: "jsnum \<Rightarrow> string" where
  "number_to_string NaN = ''NaN''"
| "number_to_string (Fin i) = (if i < 0 then ''-'' @ show_nat (nat (- i)) else show_nat (nat i))"

subsection \<open>Coercion to a string\<close>

text \<open>
  \<open>ToString(ToPrimitive(v))\<close>, as \<open>+\<close> with a string operand and \<open>Array.prototype.join\<close>
  apply it. An array is joined with commas, \<open>null\<close> and \<open>undefined\<close> elements giving the
  empty string. An object gives \<open>[object Object]\<close> through the inherited \<open>toString\<close>;
  an own property \<open>toString\<close> shadows it and, not being a function, leaves no way to a
  primitive: a TypeError.
\<close>

fun to_string :: "jsval \<Rightarrow> error + string"
  and join :: "jsval list \<Rightarrow> error + string" where
  "to_string JUndefined = Inr ''undefined''"
| "to_string JNull = Inr ''null''"
| "to_string (JBool b) = Inr (if b then ''true'' else ''false'')"
| "to_string (JNum n) = Inr (number_to_string n)"
| "to_string (JStr s) = Inr s"
| "to_string (JArr xs) = join xs"
| "to_string (JObj fs) =
     (if ''toString'' \<in> set (map fst fs) then Inl TypeError else Inr ''[object Object]'')"
| "join [] = Inr []"
| "join (x # xs) =
     (case (if x = JNull \<or> x = JUndefined then Inr [] else to_string x) of
        Inl e \<Rightarrow> Inl e
      | Inr s \<Rightarrow> (if xs = [] then Inr s
                 else (case join xs of Inl e \<Rightarrow> Inl e | Inr t \<Rightarrow> Inr (s @ '','' @ t))))"

subsection \<open>Coercion to a number\<close>

definition is_space :: "char \<Rightarrow> bool" where
  "is_space c = (of_char c \<in> {9, 10, 11, 12, 13, 32, 160 :: nat})"

definition is_digit :: "char \<Rightarrow> bool" where
  "is_digit c = (c \<in> set ''0123456789'')"

definition trim :: "string \<Rightarrow> string" where
  "trim s = rev (dropWhile is_space (rev (dropWhile is_space s)))"

definition digits_value :: "string \<Rightarrow> int" where
  "digits_value ds = foldl (\<lambda>a c. 10 * a + (int (of_char c) - 48)) 0 ds"

text \<open>
  \<open>StringToNumber\<close>. Blank text is 0; an optionally signed run of decimal digits is its
  value; text with no digit other than a signed \<open>Infinity\<close> is \<open>NaN\<close>. Any other text may
  be a fraction, an exponent form, a radix form or an infinity: not modelled.
\<close>

definition string_to_number :: "string \<Rightarrow> jsnum step" where
  "string_to_number s =
     (let t = trim s;
          u = (if t \<noteq> [] \<and> hd t \<in> set ''+-'' then tl t else t)
      in if t = [] then Ok (Fin 0)
         else if u \<noteq> [] \<and> list_all is_digit u
           then Ok (Fin (if hd t = CHR ''-'' then - digits_value u else digits_value u))
         else if \<not> list_ex is_digit t \<and> u \<noteq> ''Infinity'' then Ok NaN
         else Unmodelled)"

text \<open>\<open>ToNumber(v)\<close>, as \<open>-\<close> and \<open>Math.abs\<close> apply it\<close>

fun to_number :: "jsval \<Rightarrow> jsnum step" where
  "to_number JUndefined = Ok NaN"
| "to_number JNull = Ok (Fin 0)"
| "to_number (JBool b) = Ok (Fin (if b then 1 else 0))"
| "to_number (JNum n) = Ok n"
| "to_number (JStr s) = string_to_number s"
| "to_number v = (case to_string v of Inl e \<Rightarrow> Throw e | Inr s \<Rightarrow> string_to_number s)"

subsection \<open>Strings and arrays\<close>

text \<open>
  \<open>xs.slice(0, end)\<close> of a string or an array: \<open>NaN\<close> counts as 0, a negative end counts
  from the length, and the bounds are clamped.
\<close>

definition slice0 :: "'a list \<Rightarrow> jsnum \<Rightarrow> 'a list" where
  "slice0 xs end =
     (let len = int (length xs);
          relativeEnd = (case end of NaN \<Rightarrow> 0 | Fin e \<Rightarrow> e);
          final = (if relativeEnd < 0 then max (len + relativeEnd) 0 else min relativeEnd len)
      in take (nat final) xs)"

text \<open>\<open>body.split("\n")\<close>\<close>

fun split_lines :: "string \<Rightarrow> string list" where
  "split_lines [] = [[]]"
| "split_lines (c # cs) =
     (if c = CHR 0x0A then [] # split_lines cs
      else (case split_lines cs of l # ls \<Rightarrow> (c # l) # ls | [] \<Rightarrow> [[c]]))"

text \<open>
  \<open>Object.entries(v)\<close>: a TypeError on \<open>null\<close> and \<open>undefined\<close>, nothing for a boolean or
  a number, the indexed characters of a string, the indexed elements of an array, the
  own properties of an object.
\<close>

fun object_entries :: "jsval \<Rightarrow> error + (string \<times> jsval) list" where
  "object_entries JUndefined = Inl TypeError"
| "object_entries JNull = Inl TypeError"
| "object_entries (JBool _) = Inr []"
| "object_entries (JNum _) = Inr []"
| "object_entries (JStr s) = Inr (zip (map show_nat [0..<length s]) (map (\<lambda>c. JStr [c]) s))"
| "object_entries (JArr xs) = Inr (zip (map show_nat [0..<length xs]) xs)"
| "object_entries (JObj fs) = Inr fs"

subsection \<open>Properties of the fetched value\<close>

text \<open>
  What \<open>typeof oldValue[x]\<close> and \<open>Array.isArray(oldValue[x])\<close> tell of a property: a
  string, a number, an array, or anything else.
\<close>

datatype property = String_prop string | Number_prop jsnum | Array_prop "jsval list" | Other_prop

fun classify :: "jsval \<Rightarrow> property" where
  "classify (JStr s) = String_prop s"
| "classify (JNum n) = Number_prop n"
| "classify (JArr xs) = Array_prop xs"
| "classify _ = Other_prop"

text \<open>
  The read \<open>oldValue[x]\<close>.
  \<^item> On an object, an own property is read. Any other name is inherited from
    \<open>Object.prototype\<close> or undefined: a function, the prototype itself (\<open>__proto__\<close>) or
    \<open>undefined\<close>, none of them a string, a number or an array.
  \<^item> On \<open>null\<close> and \<open>undefined\<close> the read throws.
  \<^item> A string has its \<open>length\<close> and its characters; its other properties, and all
    properties of a number or a boolean, are inherited functions and prototypes.
  \<^item> Reads of an array (elements, length, expando and inherited properties, with
    \<open>Array.prototype\<close> an array itself) are not modelled.
\<close>

fun read_prop :: "jsval \<Rightarrow> string \<Rightarrow> property step" where
  "read_prop (JObj fs) x = Ok (case map_of fs x of Some v \<Rightarrow> classify v | None \<Rightarrow> Other_prop)"
| "read_prop JUndefined x = Throw TypeError"
| "read_prop JNull x = Throw TypeError"
| "read_prop (JStr s) x =
     Ok (if x = ''length'' then Number_prop (Fin (int (length s)))
         else (case find (\<lambda>i. show_nat i = x) [0..<length s] of
                 Some i \<Rightarrow> String_prop [s ! i]
               | None \<Rightarrow> Other_prop))"
| "read_prop (JNum _) x = Ok Other_prop"
| "read_prop (JBool _) x = Ok Other_prop"
| "read_prop (JArr _) x = Unmodelled"

text \<open>
  The write \<open>oldValue[x] = y\<close>, in strict mode (the body of a class).
  \<^item> On an object it sets or creates the own property \<open>x\<close>. The one exception is the name
    \<open>__proto__\<close> when it is not an own property: the inherited setter ignores a primitive
    \<open>y\<close> and makes an object or \<open>null\<close> the new prototype, which later reads would see;
    that is not modelled.
  \<^item> On \<open>null\<close>, \<open>undefined\<close>, a string, a number or a boolean it throws.
  \<^item> Writes to an array are not modelled.
  A new property is put last. JavaScript lists index-like names before the others; this
  changes the order of the members in the JSON text that is written, not the object the
  text denotes.
\<close>

fun put_prop :: "jsval \<Rightarrow> string \<Rightarrow> jsval \<Rightarrow> jsval step" where
  "put_prop (JObj fs) x y =
     (if x = ''__proto__'' \<and> x \<notin> set (map fst fs)
      then (if typeof y = ''object'' then Unmodelled else Ok (JObj fs))
      else Ok (JObj (AList.update x y fs)))"
| "put_prop (JArr _) x y = Unmodelled"
| "put_prop _ x y = Throw TypeError"

section \<open>The operators of \<open>update\<close>\<close>

text \<open>\<open>const [ [x, y] ] = Object.entries(val)\<close>: destructuring the first entry; with no entry it throws.\<close>

definition first_entry :: "jsval \<Rightarrow> (string \<times> jsval) step" where
  "first_entry val =
     (case object_entries val of
        Inl e \<Rightarrow> Throw e
      | Inr [] \<Rightarrow> Throw TypeError
      | Inr (xy # _) \<Rightarrow> Ok xy)"

text \<open>
  \<open>n + y\<close> for a number \<open>n\<close>: a string, array or object operand turns the sum into a
  concatenation of texts; any other operand is coerced to a number and added.
\<close>

fun plus_number :: "jsnum \<Rightarrow> jsval \<Rightarrow> jsval step" where
  "plus_number n (JStr t) = Ok (JStr (number_to_string n @ t))"
| "plus_number n (JArr xs) =
     (case to_string (JArr xs) of Inl e \<Rightarrow> Throw e | Inr t \<Rightarrow> Ok (JStr (number_to_string n @ t)))"
| "plus_number n (JObj fs) =
     (case to_string (JObj fs) of Inl e \<Rightarrow> Throw e | Inr t \<Rightarrow> Ok (JStr (number_to_string n @ t)))"
| "plus_number n y = bind_step (to_number y) (\<lambda>m. Ok (JNum (num_add n m)))"

definition op_set :: "jsval \<Rightarrow> jsval \<Rightarrow> jsval step" where
  "op_set oldValue val = bind_step (first_entry val) (\<lambda>(x, y). put_prop oldValue x y)"

definition op_add :: "jsval \<Rightarrow> jsval \<Rightarrow> jsval step" where
  "op_add oldValue val =
     bind_step (first_entry val) (\<lambda>(x, y).
       bind_step (read_prop oldValue x) (\<lambda>p.
         case p of
           String_prop s \<Rightarrow>
             (case to_string y of Inl e \<Rightarrow> Throw e | Inr t \<Rightarrow> put_prop oldValue x (JStr (s @ t)))
         | Number_prop n \<Rightarrow> bind_step (plus_number n y) (put_prop oldValue x)
         | Array_prop xs \<Rightarrow> put_prop oldValue x (JArr (xs @ [y]))
         | Other_prop \<Rightarrow> Ok oldValue))"

definition op_sub :: "jsval \<Rightarrow> jsval \<Rightarrow> jsval step" where
  "op_sub oldValue val =
     bind_step (first_entry val) (\<lambda>(x, y).
       bind_step (read_prop oldValue x) (\<lambda>p.
         case p of
           String_prop s \<Rightarrow>
             bind_step (to_number y) (\<lambda>m. put_prop oldValue x (JStr (slice0 s (neg_abs m))))
         | Number_prop n \<Rightarrow>
             bind_step (to_number y) (\<lambda>m. put_prop oldValue x (JNum (num_sub n m)))
         | Array_prop xs \<Rightarrow>
             bind_step (to_number y) (\<lambda>m. put_prop oldValue x (JArr (slice0 xs (neg_abs m))))
         | Other_prop \<Rightarrow> Ok oldValue))"

text \<open>
  The table \<open>operators\<close> is an object literal with the three own properties \<open>$set\<close>,
  \<open>$add\<close> and \<open>$sub\<close>; the lookup \<open>operators[name]\<close> also finds what the literal inherits
  from \<open>Object.prototype\<close>. Called with the entry's value, an inherited member
  \<^item> does nothing (\<open>Inherited_quiet\<close>),
  \<^item> coerces the value to a property key and does nothing else (\<open>Inherited_key\<close>), or
  \<^item> throws: \<open>__defineGetter__\<close> and \<open>__defineSetter__\<close> for want of a function argument,
    \<open>__proto__\<close> because the prototype object is not a function (\<open>Inherited_throwing\<close>).
\<close>

datatype operator =
  Op_set | Op_add | Op_sub | Inherited_quiet | Inherited_key | Inherited_throwing

definition operators :: "string \<Rightarrow> operator option" where
  "operators name =
     (if name = ''$set'' then Some Op_set
      else if name = ''$add'' then Some Op_add
      else if name = ''$sub'' then Some Op_sub
      else if name \<in> set [''constructor'', ''isPrototypeOf'', ''toLocaleString'',
                           ''toString'', ''valueOf'']
        then Some Inherited_quiet
      else if name \<in> set [''hasOwnProperty'', ''propertyIsEnumerable'',
                           ''__lookupGetter__'', ''__lookupSetter__'']
        then Some Inherited_key
      else if name \<in> set [''__defineGetter__'', ''__defineSetter__'', ''__proto__'']
        then Some Inherited_throwing
      else None)"

text \<open>\<open>operators[entry.at(0)](entry.at(1))\<close>\<close>

fun call_operator :: "operator \<Rightarrow> jsval \<Rightarrow> jsval \<Rightarrow> jsval step" where
  "call_operator Op_set oldValue val = op_set oldValue val"
| "call_operator Op_add oldValue val = op_add oldValue val"
| "call_operator Op_sub oldValue val = op_sub oldValue val"
| "call_operator Inherited_quiet oldValue val = Ok oldValue"
| "call_operator Inherited_key oldValue val =
     (case to_string val of Inl e \<Rightarrow> Throw e | Inr _ \<Rightarrow> Ok oldValue)"
| "call_operator Inherited_throwing oldValue val = Throw TypeError"

text \<open>\<open>entries.forEach(f)\<close>, where \<open>f\<close> changes the fetched value and the first throw ends the loop\<close>

fun forEach :: "('s \<Rightarrow> 'e \<Rightarrow> 's step) \<Rightarrow> 'e list \<Rightarrow> 's \<Rightarrow> 's step" where
  "forEach f [] s = Ok s"
| "forEach f (e # es) s = bind_step (f s e) (forEach f es)"

text \<open>
  The callback of \<open>update\<close> on the fetched value, up to the final \<open>set\<close>: the entries of
  the patch that name a member of \<open>operators\<close> are called in a first pass, the others
  are assigned in a second pass.
\<close>

definition apply_update :: "jsval \<Rightarrow> jsval \<Rightarrow> jsval step" where
  "apply_update oldValue value =
     (case object_entries value of
        Inl e \<Rightarrow> Throw e
      | Inr entries \<Rightarrow>
          bind_step
            (forEach (\<lambda>old entry. call_operator (the (operators (fst entry))) old (snd entry))
               (filter (\<lambda>x. operators (fst x) \<noteq> None) entries) oldValue)
            (forEach (\<lambda>old entry. put_prop old (fst entry) (snd entry))
               (filter (\<lambda>x. operators (fst x) = None) entries)))"

text \<open>The callback of \<open>patch\<close>: every entry is assigned.\<close>

definition apply_patch :: "jsval \<Rightarrow> jsval \<Rightarrow> jsval step" where
  "apply_patch oldValue value =
     (case object_entries value of
        Inl e \<Rightarrow> Throw e
      | Inr entries \<Rightarrow> forEach (\<lambda>old entry. put_prop old (fst entry) (snd entry)) entries oldValue)"

section \<open>The client\<close>

text \<open>
  The requests the client sends with axios, to the base URL \<open>b\<close> of the connection:
  \<^item> \<open>GET_key k\<close> is \<open>axios.get(b/encodeURIComponent(k))\<close>;
  \<^item> \<open>POST_key k v\<close> is \<open>axios.post(b, encodeURIComponent(k)=encodeURIComponent(JSON.stringify(v)))\<close>;
  \<^item> \<open>DELETE_key k\<close> is \<open>axios.delete(b/encodeURIComponent(k))\<close>;
  \<^item> \<open>GET_prefix p\<close> is \<open>axios.get(b?prefix=encodeURIComponent(p))\<close>.
\<close>

datatype request =
    GET_key string
  | POST_key string jsval
  | DELETE_key string
  | GET_prefix string

text \<open>
  The runtime outside the client: how the promise of axios settles for a request (it is
  rejected with an error, which carries the status of the response when there is one, or
  fulfilled with a response whose \<open>data\<close> is given), and \<open>JSON.parse\<close>, which returns a value
  or throws. The answer depends on the request alone; the read and the write of one
  call are different requests.
\<close>

record runtime =
  axios :: "request \<Rightarrow> axios_error + jsval"
  JSON_parse :: "jsval \<Rightarrow> jsval option"

text \<open>
  The promise a method returns: fulfilled, rejected, or never settled. A method is modelled
  by the final state of its promise together with the requests it sent, in order.
\<close>

datatype 'a promise = Resolved 'a | Rejected error | Pending

definition get :: "runtime \<Rightarrow> jsval \<Rightarrow> jsval promise \<times> request list" where
  "get rt key =
     (if falsy key then (Rejected Key_missing, [])
      else (case key of
              JStr k \<Rightarrow>
                (case axios rt (GET_key k) of
                   Inl err \<Rightarrow> (Rejected (Axios err), [GET_key k])
                 | Inr data \<Rightarrow>
                     (Resolved (case JSON_parse rt data of Some v \<Rightarrow> v | None \<Rightarrow> data),
                      [GET_key k]))
            | _ \<Rightarrow> (Rejected (Key_not_string (typeof key)), [])))"


definition set_key :: "runtime \<Rightarrow> jsval \<Rightarrow> jsval \<Rightarrow> jsval promise \<times> request list" where
  "set_key rt key value =
     (if falsy key then (Rejected Key_missing, [])
      else (case key of
              JStr k \<Rightarrow>
                (case axios rt (POST_key k value) of
                   Inl err \<Rightarrow> (Rejected (Axios err), [POST_key k value])
                 | Inr _ \<Rightarrow> (Resolved (JStr k), [POST_key k value]))
            | _ \<Rightarrow> (Rejected (Key_not_string (typeof key)), [])))"

definition delete :: "runtime \<Rightarrow> jsval \<Rightarrow> jsval promise \<times> request list" where
  "delete rt key =
     (if falsy key then (Rejected Key_missing, [])
      else (case key of
              JStr k \<Rightarrow>
                (case axios rt (DELETE_key k) of
                   Inl err \<Rightarrow> (Rejected (Axios err), [DELETE_key k])
                 | Inr _ \<Rightarrow> (Resolved (JStr k), [DELETE_key k]))
            | _ \<Rightarrow> (Rejected (Key_not_string (typeof key)), [])))"

text \<open>
  \<open>update\<close> and \<open>patch\<close>. For a value that is not of type \<open>object\<close> the executor returns
  the promise of \<open>set\<close> and calls neither \<open>resolve\<close> nor \<open>reject\<close>: the request is sent and
  the promise of the method never settles. Otherwise the callback runs on the fetched
  value; what it throws rejects the promise. The result is \<open>None\<close> when the callback
  leaves the modelled part of JavaScript.
\<close>

definition update :: "runtime \<Rightarrow> jsval \<Rightarrow> jsval \<Rightarrow> (jsval promise \<times> request list) option" where
  "update rt key value =
     (if falsy key then Some (Rejected Key_missing, [])
      else if typeof key \<noteq> ''string'' then Some (Rejected (Key_not_string (typeof key)), [])
      else if typeof value \<noteq> ''object'' then Some (Pending, snd (set_key rt key value))
      else (case get rt key of
              (Resolved oldValue, t) \<Rightarrow>
                (case apply_update oldValue value of
                   Ok newValue \<Rightarrow> Some (fst (set_key rt key newValue), t @ snd (set_key rt key newValue))
                 | Throw e \<Rightarrow> Some (Rejected e, t)
                 | Unmodelled \<Rightarrow> None)
            | (r, t) \<Rightarrow> Some (r, t)))"

definition patch :: "runtime \<Rightarrow> jsval \<Rightarrow> jsval \<Rightarrow> (jsval promise \<times> request list) option" where
  "patch rt key value =
     (if falsy key then Some (Rejected Key_missing, [])
      else if typeof key \<noteq> ''string'' then Some (Rejected (Key_not_string (typeof key)), [])
      else if typeof value \<noteq> ''object'' then Some (Pending, snd (set_key rt key value))
      else (case get rt key of
              (Resolved oldValue, t) \<Rightarrow>
                (case apply_patch oldValue value of
                   Ok newValue \<Rightarrow> Some (fst (set_key rt key newValue), t @ snd (set_key rt key newValue))
                 | Throw e \<Rightarrow> Some (Rejected e, t)
                 | Unmodelled \<Rightarrow> None)
            | (r, t) \<Rightarrow> Some (r, t)))"

text \<open>
  \<open>list(prefix = ``)\<close>: the default stands in for \<open>undefined\<close>. \<open>res.data.split\<close> is a
  function only when the data is a string; calling it otherwise throws inside the
  callback, which rejects the promise.
\<close>

definition list :: "runtime \<Rightarrow> jsval \<Rightarrow> jsval promise \<times> request list" where
  "list rt prefix0 =
     (let prefix = (if prefix0 = JUndefined then JStr [] else prefix0)
      in case prefix of
           JStr p \<Rightarrow>
             (case axios rt (GET_prefix p) of
                Inl err \<Rightarrow> (Rejected (Axios err), [GET_prefix p])
              | Inr (JStr body) \<Rightarrow> (Resolved (JArr (map JStr (split_lines body))), [GET_prefix p])
              | Inr _ \<Rightarrow> (Rejected TypeError, [GET_prefix p]))
         | _ \<Rightarrow> (Rejected (Prefix_not_string (typeof prefix)), []))"

subsection \<open>\<open>setAll\<close>\<close>

text \<open>The argument \<open>values\<close>: a function of the key, its index and all keys, or any value.\<close>

datatype values_arg = Function "jsval \<Rightarrow> nat \<Rightarrow> jsval list \<Rightarrow> jsval" | Value jsval

text \<open>
  \<open>Promise.all\<close> over the promises of the \<open>set\<close> calls. A call that sent no request was
  rejected when it was made, before any response; the responses are taken to arrive in
  the order of the requests. So the first rejection is that of the first call rejected
  without a request, or else of the first rejected call.
\<close>

fun first_rejection :: "('a promise \<times> request list) list \<Rightarrow> error option" where
  "first_rejection [] = None"
| "first_rejection ((Rejected e, t) # rs) = Some e"
| "first_rejection (_ # rs) = first_rejection rs"

fun fulfilled :: "('a promise \<times> request list) list \<Rightarrow> 'a list option" where
  "fulfilled [] = Some []"
| "fulfilled ((Resolved v, t) # rs) = map_option ((#) v) (fulfilled rs)"
| "fulfilled (_ # rs) = None"

definition promise_all :: "(jsval promise \<times> request list) list \<Rightarrow> jsval promise" where
  "promise_all rs =
     (case first_rejection (filter (\<lambda>r. snd r = []) rs) of
        Some e \<Rightarrow> Rejected e
      | None \<Rightarrow>
          (case first_rejection rs of
             Some e \<Rightarrow> Rejected e
           | None \<Rightarrow> (case fulfilled rs of Some vs \<Rightarrow> Resolved (JArr vs) | None \<Rightarrow> Pending)))"

definition doSetAll :: "runtime \<Rightarrow> values_arg \<Rightarrow> jsval list \<Rightarrow> jsval promise \<times> request list" where
  "doSetAll rt values keys =
     (let promises =
            map (\<lambda>(y, key).
                   set_key rt key (case values of Function f \<Rightarrow> f key y keys | Value v \<Rightarrow> v))
              (enumerate 0 keys)
      in (promise_all promises, concat (map snd promises)))"

definition setAll :: "runtime \<Rightarrow> jsval \<Rightarrow> values_arg \<Rightarrow> jsval promise \<times> request list" where
  "setAll rt prefixOrList0 values =
     (let prefixOrList = (if prefixOrList0 = JUndefined then JStr [] else prefixOrList0)
      in case prefixOrList of
           JArr keys \<Rightarrow> doSetAll rt values keys
         | _ \<Rightarrow>
             (case list rt prefixOrList of
                (Resolved (JArr keys), t) \<Rightarrow>
                  (fst (doSetAll rt values keys), t @ snd (doSetAll rt values keys))
              | (Resolved r, t) \<Rightarrow> (Rejected TypeError, t)
              | (r, t) \<Rightarrow> (r, t)))"

section \<open>Runtimes for the examples\<close>

text \<open>
  A runtime in which every request is fulfilled with the same response data, and one in
  which every request is rejected with the same error. \<open>JSON.parse\<close> throws in both, so
  that \<open>get\<close> resolves with the response data itself.
\<close>

definition answering :: "jsval \<Rightarrow> runtime" where
  "answering data = \<lparr>axios = (\<lambda>_. Inr data), JSON_parse = (\<lambda>_. None)\<rparr>"


section \<open>Properties of the model\<close>

subsection \<open>Keys and requests\<close>

lemma typeof_string_iff: "typeof key = ''string'' \<longleftrightarrow> (\<exists>k. key = JStr k)"
  by (cases key) simp_all

lemma get_valid_key:
  "k \<noteq> [] \<Longrightarrow> get rt (JStr k) =
     (case axios rt (GET_key k) of
        Inl err \<Rightarrow> (Rejected (Axios err), [GET_key k])
      | Inr data \<Rightarrow> (Resolved (case JSON_parse rt data of Some v \<Rightarrow> v | None \<Rightarrow> data), [GET_key k]))"
  by (simp add: get_def)

lemma set_key_valid_key:
  "k \<noteq> [] \<Longrightarrow> set_key rt (JStr k) v =
     (case axios rt (POST_key k v) of
        Inl err \<Rightarrow> (Rejected (Axios err), [POST_key k v])
      | Inr _ \<Rightarrow> (Resolved (JStr k), [POST_key k v]))"
  by (simp add: set_key_def)

lemma snd_set_key: "k \<noteq> [] \<Longrightarrow> snd (set_key rt (JStr k) v) = [POST_key k v]"
  by (simp add: set_key_valid_key split: sum.splits)



lemma update_get_succeeds:
  "k \<noteq> [] \<Longrightarrow> typeof value = ''object'' \<Longrightarrow> axios rt (GET_key k) = Inr data \<Longrightarrow>
   update rt (JStr k) value =
     (case apply_update (case JSON_parse rt data of Some v \<Rightarrow> v | None \<Rightarrow> data) value of
        Ok newValue \<Rightarrow> Some (fst (set_key rt (JStr k) newValue), [GET_key k, POST_key k newValue])
      | Throw e \<Rightarrow> Some (Rejected e, [GET_key k])
      | Unmodelled \<Rightarrow> None)"
  by (simp add: update_def get_valid_key snd_set_key split: step.splits)








subsection \<open>What the callback throws\<close>





lemma bind_step_Ok:
  "bind_step m f = Ok b \<longleftrightarrow> (\<exists>a. m = Ok a \<and> f a = Ok b)"
  by (cases m) (simp_all add: bind_step_def)














lemma operators_own:
  "operators ''$set'' = Some Op_set" "operators ''$add'' = Some Op_add"
  "operators ''$sub'' = Some Op_sub"
  by (simp_all add: operators_def)



subsection \<open>A patch of one operator entry\<close>

text \<open>
  \<open>update\<close> with a patch of the single entry \<open>$set\<close>, \<open>$add\<close> or \<open>$sub\<close> writes back what
  the operator makes of the fetched value.
\<close>

lemma update_single_operator:
  assumes "k \<noteq> []"
    and "name \<in> {''$set'', ''$add'', ''$sub''}"
    and "axios rt (GET_key k) = Inr data"
    and "call_operator (the (operators name))
           (case JSON_parse rt data of Some v \<Rightarrow> v | None \<Rightarrow> data) payload = Ok new"
  shows "update rt (JStr k) (JObj [(name, payload)])
         = Some (fst (set_key rt (JStr k) new), [GET_key k, POST_key k new])"
proof -
  from assms(2) have "operators name \<noteq> None"
    by (auto simp: operators_own)
  with assms(4) have "apply_update (case JSON_parse rt data of Some v \<Rightarrow> v | None \<Rightarrow> data)
      (JObj [(name, payload)]) = Ok new"
    by (auto simp: apply_update_def bind_step_def)
  with assms(1,3) show ?thesis
    by (simp add: update_get_succeeds)
qed

subsection \<open>The second pass of \<open>update\<close>\<close>

text \<open>
  On a fetched object, an entry of the patch whose name is not a member of \<open>operators\<close>
  ends up in the value written back, wherever it stands in the patch and whatever the
  operators did to the same field.
\<close>

lemma operators_proto: "operators x = None \<Longrightarrow> x \<noteq> ''__proto__''"
  by (auto simp: operators_def)

lemma put_prop_object:
  "put_prop (JObj fs) x y = Ok v \<Longrightarrow>
   v = JObj fs \<and> x = ''__proto__'' \<or> v = JObj (AList.update x y fs)"
  by (auto split: if_splits)

lemma put_prop_object_plain:
  "x \<noteq> ''__proto__'' \<Longrightarrow> put_prop (JObj fs) x y = Ok (JObj (AList.update x y fs))"
  by simp

lemma put_prop_keeps_object: "put_prop (JObj fs) x y = Ok v \<Longrightarrow> \<exists>fs'. v = JObj fs'"
  using put_prop_object by blast

lemma op_set_keeps_object:
  assumes "op_set (JObj fs) val = Ok v"
  shows "\<exists>fs'. v = JObj fs'"
proof -
  from assms obtain x y where "put_prop (JObj fs) x y = Ok v"
    by (auto simp: op_set_def bind_step_Ok)
  then show ?thesis by (rule put_prop_keeps_object)
qed

lemma op_add_keeps_object:
  assumes "op_add (JObj fs) val = Ok v"
  shows "\<exists>fs'. v = JObj fs'"
proof -
  from assms obtain x y p where p: "read_prop (JObj fs) x = Ok p"
    and run: "(case p of
           String_prop s \<Rightarrow>
             (case to_string y of Inl e \<Rightarrow> Throw e | Inr t \<Rightarrow> put_prop (JObj fs) x (JStr (s @ t)))
         | Number_prop n \<Rightarrow> bind_step (plus_number n y) (put_prop (JObj fs) x)
         | Array_prop xs \<Rightarrow> put_prop (JObj fs) x (JArr (xs @ [y]))
         | Other_prop \<Rightarrow> Ok (JObj fs)) = Ok v"
    by (auto simp: op_add_def bind_step_Ok simp del: put_prop.simps read_prop.simps)
  from run show ?thesis
    by (cases p)
       (auto simp: bind_step_Ok simp del: put_prop.simps split: sum.splits
             dest: put_prop_keeps_object)
qed

lemma op_sub_keeps_object:
  assumes "op_sub (JObj fs) val = Ok v"
  shows "\<exists>fs'. v = JObj fs'"
proof -
  from assms obtain x y p where p: "read_prop (JObj fs) x = Ok p"
    and run: "(case p of
           String_prop s \<Rightarrow>
             bind_step (to_number y) (\<lambda>m. put_prop (JObj fs) x (JStr (slice0 s (neg_abs m))))
         | Number_prop n \<Rightarrow>
             bind_step (to_number y) (\<lambda>m. put_prop (JObj fs) x (JNum (num_sub n m)))
         | Array_prop xs \<Rightarrow>
             bind_step (to_number y) (\<lambda>m. put_prop (JObj fs) x (JArr (slice0 xs (neg_abs m))))
         | Other_prop \<Rightarrow> Ok (JObj fs)) = Ok v"
    by (auto simp: op_sub_def bind_step_Ok simp del: put_prop.simps read_prop.simps)
  from run show ?thesis
    by (cases p)
       (auto simp: bind_step_Ok simp del: put_prop.simps dest: put_prop_keeps_object)
qed

lemma call_operator_keeps_object:
  assumes "call_operator opr (JObj fs) val = Ok v"
  shows "\<exists>fs'. v = JObj fs'"
proof (cases opr)
  case Op_set
  with assms show ?thesis by (simp add: op_set_keeps_object)
next
  case Op_add
  with assms show ?thesis by (simp add: op_add_keeps_object)
next
  case Op_sub
  with assms show ?thesis by (simp add: op_sub_keeps_object)
next
  case Inherited_quiet
  with assms have "v = JObj fs" by simp
  then show ?thesis by blast
next
  case Inherited_key
  with assms have "v = JObj fs" by (simp split: sum.splits)
  then show ?thesis by blast
next
  case Inherited_throwing
  with assms show ?thesis by simp
qed

lemma forEach_keeps_object:
  assumes "\<And>fs e v. f (JObj fs) e = Ok v \<Longrightarrow> \<exists>fs'. v = JObj fs'"
  shows "forEach f es (JObj fs) = Ok v \<Longrightarrow> \<exists>fs'. v = JObj fs'"
proof (induction es arbitrary: fs)
  case Nil
  then show ?case by auto
next
  case (Cons e es)
  from Cons.prems obtain v1 where 1: "f (JObj fs) e = Ok v1" and 2: "forEach f es v1 = Ok v"
    by (auto simp: bind_step_Ok)
  from assms [OF 1] obtain fs1 where "v1 = JObj fs1" by blast
  with 2 Cons.IH show ?case by blast
qed

lemma forEach_put_other:
  "f \<notin> fst ` set es \<Longrightarrow>
   forEach (\<lambda>old entry. put_prop old (fst entry) (snd entry)) es (JObj fs) = Ok (JObj fs') \<Longrightarrow>
   map_of fs' f = map_of fs f"
proof (induction es arbitrary: fs)
  case Nil
  then show ?case by simp
next
  case (Cons e es)
  from Cons.prems(2) obtain v1 where 1: "put_prop (JObj fs) (fst e) (snd e) = Ok v1"
    and 2: "forEach (\<lambda>old entry. put_prop old (fst entry) (snd entry)) es v1 = Ok (JObj fs')"
    by (auto simp: bind_step_Ok)
  from Cons.prems(1) have ne: "fst e \<noteq> f" and notin: "f \<notin> fst ` set es" by auto
  from put_prop_object [OF 1] obtain fs1 where v1: "v1 = JObj fs1"
    and same: "map_of fs1 f = map_of fs f"
    using ne by (auto simp: update_conv')
  from Cons.IH [OF notin 2 [unfolded v1]] same show ?case by simp
qed

lemma forEach_put_entry:
  "distinct (map fst es) \<Longrightarrow> (f, v) \<in> set es \<Longrightarrow> f \<noteq> ''__proto__'' \<Longrightarrow>
   forEach (\<lambda>old entry. put_prop old (fst entry) (snd entry)) es (JObj fs) = Ok (JObj fs') \<Longrightarrow>
   map_of fs' f = Some v"
proof (induction es arbitrary: fs)
  case Nil
  then show ?case by simp
next
  case (Cons e es)
  from Cons.prems(4) obtain v1 where 1: "put_prop (JObj fs) (fst e) (snd e) = Ok v1"
    and 2: "forEach (\<lambda>old entry. put_prop old (fst entry) (snd entry)) es v1 = Ok (JObj fs')"
    by (auto simp: bind_step_Ok)
  from put_prop_object [OF 1] obtain fs1 where v1: "v1 = JObj fs1" by blast
  show ?case
  proof (cases "e = (f, v)")
    case True
    with Cons.prems(1) have notin: "f \<notin> fst ` set es" by auto
    from True 1 v1 Cons.prems(3) have "fs1 = AList.update f v fs" by simp
    with forEach_put_other [OF notin 2 [unfolded v1]] show ?thesis
      by (simp add: update_conv')
  next
    case False
    with Cons.prems have "distinct (map fst es)" and "(f, v) \<in> set es" by auto
    from Cons.IH [OF this Cons.prems(3) 2 [unfolded v1]] show ?thesis .
  qed
qed

lemma plain_entry_overwrites:
  assumes "apply_update (JObj fs) (JObj entries) = Ok new"
    and "distinct (map fst entries)"
    and "(f, v) \<in> set entries"
    and "operators f = None"
  shows "\<exists>fs'. new = JObj fs' \<and> map_of fs' f = Some v"
proof -
  let ?ops = "filter (\<lambda>x. operators (fst x) \<noteq> None) entries"
  let ?plain = "filter (\<lambda>x. operators (fst x) = None) entries"
  let ?put = "\<lambda>old entry. put_prop old (fst entry) (snd entry)"
  from assms(1) obtain v1 where
    1: "forEach (\<lambda>old entry. call_operator (the (operators (fst entry))) old (snd entry)) ?ops (JObj fs) = Ok v1"
    and 2: "forEach ?put ?plain v1 = Ok new"
    by (auto simp: apply_update_def bind_step_Ok)
  from 1 obtain fs1 where v1: "v1 = JObj fs1"
    using forEach_keeps_object [where f = "\<lambda>old entry. call_operator (the (operators (fst entry))) old (snd entry)"]
      call_operator_keeps_object by blast
  from 2 v1 obtain fs' where new: "new = JObj fs'"
    using forEach_keeps_object [where f = ?put] put_prop_keeps_object by blast
  from assms(2) have "distinct (map fst ?plain)" by (simp add: distinct_map_filter)
  moreover from assms(3,4) have "(f, v) \<in> set ?plain" by simp
  moreover from assms(4) have "f \<noteq> ''__proto__''" by (rule operators_proto)
  ultimately have "map_of fs' f = Some v"
    using 2 v1 new forEach_put_entry by blast
  with new show ?thesis by blast
qed

subsection \<open>\<open>$sub\<close> with a non-zero number\<close>

lemma slice0_zero: "slice0 xs (neg_abs (Fin 0)) = []"
  by (simp add: slice0_def)

lemma slice0_removes_last:
  "m \<noteq> 0 \<Longrightarrow> slice0 xs (neg_abs (Fin m)) = take (length xs - nat \<bar>m\<bar>) xs"
  by (auto simp: slice0_def Let_def max_def intro!: arg_cong [where f = "\<lambda>n. take n xs"])

lemma sub_on_field:
  assumes "m \<noteq> 0"
  shows "(\<forall>a. map_of fs x = Some (JNum (Fin a)) \<longrightarrow>
      call_operator (the (operators ''$sub'')) (JObj fs) (JObj [(x, JNum (Fin m))])
        = Ok (JObj (AList.update x (JNum (Fin (a - m))) fs)))
   \<and> (\<forall>s. map_of fs x = Some (JStr s) \<longrightarrow>
      call_operator (the (operators ''$sub'')) (JObj fs) (JObj [(x, JNum (Fin m))])
        = Ok (JObj (AList.update x (JStr (take (length s - nat \<bar>m\<bar>) s)) fs)))
   \<and> (\<forall>xs. map_of fs x = Some (JArr xs) \<longrightarrow>
      call_operator (the (operators ''$sub'')) (JObj fs) (JObj [(x, JNum (Fin m))])
        = Ok (JObj (AList.update x (JArr (take (length xs - nat \<bar>m\<bar>) xs)) fs)))
   \<and> ((\<forall>s. map_of fs x \<noteq> Some (JStr s)) \<and> (\<forall>n. map_of fs x \<noteq> Some (JNum n))
        \<and> (\<forall>xs. map_of fs x \<noteq> Some (JArr xs)) \<longrightarrow>
      call_operator (the (operators ''$sub'')) (JObj fs) (JObj [(x, JNum (Fin m))]) = Ok (JObj fs))"
proof -
  have own: "x \<in> fst ` set fs" if "map_of fs x = Some v" for v
    using that by (metis map_of_eq_None_iff option.distinct(1))
  have other: "classify v = Other_prop"
    if "\<forall>s. v \<noteq> JStr s" "\<forall>n. v \<noteq> JNum n" "\<forall>xs. v \<noteq> JArr xs" for v
    using that by (cases v) simp_all
  show ?thesis
    using assms
    by (auto simp: operators_own op_sub_def first_entry_def bind_step_def own other
                   slice0_removes_last simp del: neg_abs.simps
             split: option.splits)
qed

subsection \<open>Lines of a listing\<close>

lemma split_lines_not_Nil: "split_lines s \<noteq> []"
  by (induction s) (auto split: list.splits)

lemma split_lines_no_newline: "l \<in> set (split_lines s) \<Longrightarrow> CHR 0x0A \<notin> set l"
  by (induction s arbitrary: l) (auto split: list.splits if_splits)

lemma split_lines_joined: "tl (concat (map ((#) (CHR 0x0A)) (split_lines s))) = s"
proof (induction s)
  case Nil
  then show ?case by simp
next
  case (Cons c s)
  then show ?case
    using split_lines_not_Nil [of s] by (auto split: list.splits)
qed

lemma list_resolves_lines:
  "axios rt (GET_prefix p) = Inr (JStr body) \<Longrightarrow>
   list rt (JStr p) = (Resolved (JArr (map JStr (split_lines body))), [GET_prefix p])"
  by (simp add: list_def)

subsection \<open>The requests of \<open>setAll\<close>\<close>

lemma doSetAll_requests:
  assumes "\<forall>k \<in> set ks. k \<noteq> []"
  shows "snd (doSetAll rt values (map JStr ks)) =
     map (\<lambda>(i, k). POST_key k (case values of Function f \<Rightarrow> f (JStr k) i (map JStr ks)
                                               | Value v \<Rightarrow> v))
       (enumerate 0 ks)"
proof -
  have "concat (map (\<lambda>(y, key). snd (set_key rt key (g key y))) (enumerate n (map JStr ks)))
      = map (\<lambda>(i, k). POST_key k (g (JStr k) i)) (enumerate n ks)" for g n
    using assms
  proof (induction ks arbitrary: n)
    case Nil
    then show ?case by simp
  next
    case (Cons k ks)
    then show ?case by (simp add: snd_set_key)
  qed
  then show ?thesis
    by (simp add: doSetAll_def Let_def comp_def case_prod_unfold)
qed

section \<open>The claims\<close>

subsection \<open>The operator \<open>$add\<close>\<close>




subsection \<open>The operator \<open>$sub\<close>\<close>

text \<open>
  C2. The claim: \<open>$sub: {field: operand}\<close> subtracts from a number and removes the last
  \<open>abs(operand)\<close> characters or elements of a string or an array; in particular the operand
  0 leaves a string or an array unchanged.

  The code computes the end of the slice as \<open>Math.abs(0) * -1\<close>, which is \<open>-0\<close> and counts
  as the index 0: with the operand 0 the string \<open>hello\<close> and the array \<open>[a, b]\<close> are written
  back empty.
\<close>

theorem sub_zero_empties_string_and_array:
  "update (answering (JObj [(''name'', JStr ''hello''), (''tags'', JArr [JStr ''a'', JStr ''b''])]))
     (JStr ''k'') (JObj [(''$sub'', JObj [(''name'', JNum (Fin 0))])])
   = Some (Resolved (JStr ''k''),
       [GET_key ''k'',
        POST_key ''k'' (JObj [(''name'', JStr []), (''tags'', JArr [JStr ''a'', JStr ''b''])])])
   \<and> update (answering (JObj [(''name'', JStr ''hello''), (''tags'', JArr [JStr ''a'', JStr ''b''])]))
     (JStr ''k'') (JObj [(''$sub'', JObj [(''tags'', JNum (Fin 0))])])
   = Some (Resolved (JStr ''k''),
       [GET_key ''k'', POST_key ''k'' (JObj [(''name'', JStr ''hello''), (''tags'', JArr [])])])"
  by code_simp

subsection \<open>The two passes of \<open>update\<close>\<close>

text \<open>
  C3. The claim: the entries \<open>$set\<close>, \<open>$add\<close> and \<open>$sub\<close> of a patch are applied first,
  whatever their position, and every other entry then overwrites its field.

  The code tells an operator from a plain entry by \<open>operators[name] !== undefined\<close>, which
  also holds for the names the table inherits from \<open>Object.prototype\<close>. The plain entry
  \<open>toString: 2\<close> is called as an operator in the first pass, to no effect, and is left out
  of the second: the value written back has no field \<open>toString\<close>.
\<close>

theorem plain_entry_named_toString_is_dropped:
  "update (answering (JObj [(''a'', JNum (Fin 1))])) (JStr ''k'') (JObj [(''toString'', JNum (Fin 2))])
   = Some (Resolved (JStr ''k''), [GET_key ''k'', POST_key ''k'' (JObj [(''a'', JNum (Fin 1))])])"
  by code_simp

subsection \<open>The scalar bypass\<close>

text \<open>
  C4. The claim: with a value that is not an object, \<open>update\<close> and \<open>patch\<close> read nothing,
  delegate to \<open>set\<close> and return its result, resolving with the key on success.

  The request of \<open>set\<close> is sent and nothing is read, but the promise of \<open>update\<close> and of
  \<open>patch\<close> stays pending although \<open>set\<close> itself resolves with the key.
\<close>

theorem scalar_update_never_settles:
  "update (answering JNull) (JStr ''k'') (JNum (Fin 5))
     = Some (Pending, [POST_key ''k'' (JNum (Fin 5))])
   \<and> patch (answering JNull) (JStr ''k'') (JNum (Fin 5))
     = Some (Pending, [POST_key ''k'' (JNum (Fin 5))])
   \<and> set_key (answering JNull) (JStr ''k'') (JNum (Fin 5))
     = (Resolved (JStr ''k''), [POST_key ''k'' (JNum (Fin 5))])"
  by code_simp

subsection \<open>No write without a read\<close>



subsection \<open>\<open>get\<close> and a key that is not found\<close>




subsection \<open>\<open>list\<close>\<close>

text \<open>
  C7. The claim: \<open>list\<close> returns the key names of the newline-separated body, and the
  empty sequence when the body is empty.

  Splitting the empty body gives one empty name, not the empty sequence.
\<close>

theorem list_of_empty_body:
  "list (answering (JStr [])) (JStr []) = (Resolved (JArr [JStr []]), [GET_prefix []])"
  by code_simp

subsection \<open>\<open>setAll\<close>\<close>

text \<open>
  C8. The claim: \<open>setAll\<close> writes to the key at position \<open>i\<close> the result of the function
  \<open>values\<close>, or the element at position \<open>i\<close> when \<open>values\<close> is an array, or else \<open>values\<close>
  itself.

  An array is not taken apart: each key is written the whole array.
\<close>

theorem setAll_broadcasts_array:
  "setAll (answering JNull) (JArr [JStr ''k1'', JStr ''k2'']) (Value (JArr [JStr ''a'', JStr ''b'']))
   = (Resolved (JArr [JStr ''k1'', JStr ''k2'']),
      [POST_key ''k1'' (JArr [JStr ''a'', JStr ''b'']),
       POST_key ''k2'' (JArr [JStr ''a'', JStr ''b''])])"
  by code_simp

subsection \<open>Invalid keys\<close>

text \<open>
  C9. Called with a key that is not a non-empty string, each of \<open>get\<close>, \<open>set\<close>, \<open>delete\<close>,
  \<open>update\<close> and \<open>patch\<close> is rejected with the error for a missing key or for a key of the
  wrong type, and sends no request.
\<close>

theorem invalid_key_rejected_without_request:
  assumes "\<forall>k. key = JStr k \<longrightarrow> k = []"
  shows "\<exists>e. (e = Key_missing \<or> e = Key_not_string (typeof key))
           \<and> get rt key = (Rejected e, [])
           \<and> set_key rt key val = (Rejected e, [])
           \<and> delete rt key = (Rejected e, [])
           \<and> update rt key val = Some (Rejected e, [])
           \<and> patch rt key val = Some (Rejected e, [])"
  using assms
  by (cases key) (auto simp: get_def set_key_def delete_def update_def patch_def)

theorem invalid_key_rejected_without_request_witness:
  "get (answering JNull) (JStr []) = (Rejected Key_missing, [])
   \<and> set_key (answering JNull) (JStr []) (JNum (Fin 1)) = (Rejected Key_missing, [])
   \<and> delete (answering JNull) (JStr []) = (Rejected Key_missing, [])
   \<and> update (answering JNull) (JStr []) (JNum (Fin 1)) = Some (Rejected Key_missing, [])
   \<and> patch (answering JNull) (JStr []) (JNum (Fin 1)) = Some (Rejected Key_missing, [])
   \<and> get (answering JNull) (JNum (Fin 5)) = (Rejected (Key_not_string ''number''), [])
   \<and> update (answering JNull) (JNum (Fin 5)) (JObj []) = Some (Rejected (Key_not_string ''number''), [])"
proof -
  have empty: "\<forall>k. JStr [] = JStr k \<longrightarrow> k = []" by simp
  have number: "\<forall>k. JNum (Fin 5) = JStr k \<longrightarrow> k = []" by simp
  have "falsy (JStr [])" and "\<not> falsy (JNum (Fin 5))" by simp_all
  with invalid_key_rejected_without_request [OF empty, of "answering JNull" "JNum (Fin 1)"]
    invalid_key_rejected_without_request [OF number, of "answering JNull" "JObj []"]
  show ?thesis
    by (auto simp: get_def update_def)
qed

subsection \<open>An operator with an empty payload\<close>



end
